theory Spec2Isabelle
  imports Main
begin

section \<open>VocalText: the recording component and its transcript archive\<close>

text \<open>
  The repository holds the React component \<open>App\<close> in several revisions. Two of them
  carry the behaviour studied here:
  \<^item> \<open>src/App.tsx\<close>, the component that \<open>main.tsx\<close> mounts: recording, archive with a
    one-day expiry, download;
  \<^item> a later revision of the same component (\<open>part_001\<close> in the source listing) that
    adds a word counter, a word ceiling, a recording clock and a ref that accumulates the
    final text.
  Definitions without a suffix embed \<open>src/App.tsx\<close>; those ending in \<open>_p1\<close> embed the
  functions that the later revision changes. Handlers whose text is the same in both
  revisions are defined once, over extensible records, and serve both.

  How the component is read. A handler is a closure created by one render of \<open>App\<close>:
  a state variable it mentions (\<open>status\<close>, \<open>transcript\<close>, \<open>selectedLanguage\<close>,
  \<open>storedTranscripts\<close>) is the constant of that render, and a setter call only schedules
  the value of the next render. Refs, \<open>localStorage\<close> and the recogniser are read and
  written in place. So a handler that reads state takes two arguments of the same record
  type: \<open>r\<close>, the render whose closure it is (only state variables are read from it), and
  \<open>s\<close>, the component as the handler finds it; it returns the component as it leaves
  it. For a handler invoked from the current render (a click), \<open>r = s\<close>. The recogniser's
  callbacks are installed by an effect that depends on \<open>status\<close> and
  \<open>selectedLanguage\<close> only, so their \<open>r\<close> may be older than \<open>s\<close> in every other
  state variable.
\<close>

subsection \<open>Types\<close>

datatype RecordingStatus = Idle | Recording | Transcribing | Complete | Error

datatype Language = en_US | zh_CN

record ErrorState =
  message :: string
  details :: "string option"

text \<open>\<open>StoredTranscript\<close>: fields \<open>id\<close> and \<open>text\<close> carry a suffix, the plain names being
  taken in Isabelle. The later revision adds \<open>wordCount\<close>.\<close>

record StoredTranscript =
  id_t :: string
  text_t :: string
  language :: Language
  timestamp :: int

record StoredTranscript_p1 = StoredTranscript +
  wordCount :: nat

text \<open>One entry of \<open>event.results\<close>: its \<open>isFinal\<close> flag and \<open>results[i][0].transcript\<close>.\<close>

record SpeechRecognitionResult =
  isFinal :: bool
  transcript0 :: string

text \<open>The calls that the handlers issue to the module-wide \<open>recognition\<close> object, in
  order. (The cleanup of the effect also calls \<open>stop\<close>; it is no handler and is not
  part of the log.)\<close>

datatype RecognitionCall = RecStart | RecStop

text \<open>
  The component: the \<open>useState\<close> variables, \<open>recognitionRef\<close> (is \<open>current\<close> set), the
  value stored under \<open>STORAGE_KEY\<close> (\<open>None\<close> when \<open>getItem\<close> returns nothing, otherwise
  the list whose JSON text is stored; \<open>JSON.parse\<close> of \<open>JSON.stringify\<close> is taken as the
  identity and storage writes as succeeding), and the log of recogniser calls. The flag
  \<open>showStorage\<close> only drives the layout and is left out.
\<close>

record 't app =
  status :: RecordingStatus
  transcript :: string
  error :: "ErrorState option"
  interimTranscript :: string
  selectedLanguage :: Language
  storedTranscripts :: "'t list"
  recognitionRef :: bool
  localStorage :: "'t list option"
  recognition :: "RecognitionCall list"

record 't app_p1 = "'t app" +
  recordingStartTime :: "int option"
  transcriptRef :: string

type_synonym App = "StoredTranscript app"

type_synonym App_p1 = "StoredTranscript_p1 app_p1"

text \<open>What \<open>handleDownload\<close> hands to the browser: the \<open>download\<close> name of the link and
  the blob behind it.\<close>

record Download =
  download :: string
  blob :: string
  blob_type :: string

subsection \<open>Constants\<close>

definition ONE_DAY_MS :: int where
  "ONE_DAY_MS = 24 * 60 * 60 * 1000"

definition MAX_WORD_COUNT :: nat where
  "MAX_WORD_COUNT = 88888"

subsection \<open>String helpers of the platform\<close>

text \<open>
  Strings are lists of 8-bit characters. \<open>is_ws\<close> is the white space of
  \<open>String.prototype.trim\<close> and of the regular expression class \<open>\s\<close> within that range:
  TAB, LF, VT, FF, CR, SPACE and NBSP.
\<close>

definition is_ws :: "char \<Rightarrow> bool" where
  "is_ws c = (of_char c \<in> {9, 10, 11, 12, 13, 32, 160 :: nat})"

definition trim :: "string \<Rightarrow> string" where
  "trim s = rev (dropWhile is_ws (rev (dropWhile is_ws s)))"

text \<open>\<open>s.split(/\s+/)\<close>: cut at every maximal run of white space; a run at either end
  leaves an empty piece there, and the empty string gives one empty piece.\<close>

function split_ws :: "string \<Rightarrow> string \<Rightarrow> string list" where
  "split_ws piece [] = [rev piece]"
| "split_ws piece (c # cs) =
     (if is_ws c then rev piece # split_ws [] (dropWhile is_ws cs)
      else split_ws (c # piece) cs)"
  by pat_completeness auto
termination
  by (relation "measure (\<lambda>(piece, s). length s)")
     (auto simp: length_dropWhile_le less_Suc_eq_le)

definition split_s :: "string \<Rightarrow> string list" where
  "split_s s = split_ws [] s"

text \<open>\<open>Number.prototype.toString\<close> on an integer: its decimal digits (\<open>digit_char\<close> is
  only applied below ten).\<close>

definition digit_char :: "nat \<Rightarrow> char" where
  "digit_char d = ''0123456789'' ! d"

fun toString_nat :: "nat \<Rightarrow> string" where
  "toString_nat n =
     (if n < 10 then [digit_char n] else toString_nat (n div 10) @ [digit_char (n mod 10)])"

declare toString_nat.simps [simp del]

definition toString :: "int \<Rightarrow> string" where
  "toString i = (if i < 0 then CHR ''-'' # toString_nat (nat (- i)) else toString_nat (nat i))"

subsection \<open>The archive: \<open>loadAndCleanTranscripts\<close>\<close>

text \<open>The same in both revisions. \<open>now\<close> is the value of \<open>Date.now()\<close>.\<close>

definition loadAndCleanTranscripts ::
  "int \<Rightarrow> ('x StoredTranscript_scheme, 'a) app_scheme \<Rightarrow> ('x StoredTranscript_scheme, 'a) app_scheme" where
  "loadAndCleanTranscripts now s =
     (case localStorage s of
        None \<Rightarrow> s
      | Some transcripts \<Rightarrow>
          (let validTranscripts = filter (\<lambda>t. now - timestamp t < ONE_DAY_MS) transcripts;
               s1 = (if length validTranscripts \<noteq> length transcripts
                     then s\<lparr>localStorage := Some validTranscripts\<rparr> else s)
           in s1\<lparr>storedTranscripts := validTranscripts\<rparr>))"

subsection \<open>The recogniser's callbacks\<close>

text \<open>The loop over \<open>event.results\<close>, on the pair of its two local strings
  \<open>(interim, final)\<close>.\<close>

fun results_loop :: "SpeechRecognitionResult list \<Rightarrow> string \<times> string \<Rightarrow> string \<times> string" where
  "results_loop [] (interim, final) = (interim, final)"
| "results_loop (x # xs) (interim, final) =
     (if isFinal x then results_loop xs (interim, final @ transcript0 x @ '' '')
      else results_loop xs (interim @ transcript0 x, final))"

text \<open>\<open>recognition.onresult\<close> of \<open>src/App.tsx\<close>: both strings start empty.\<close>

definition onresult ::
  "SpeechRecognitionResult list \<Rightarrow> ('t, 'a) app_scheme \<Rightarrow> ('t, 'a) app_scheme" where
  "onresult results s =
     (case results_loop results ([], []) of
        (interim, final) \<Rightarrow> s\<lparr>transcript := final, interimTranscript := interim\<rparr>)"

text \<open>\<open>recognition.onerror\<close>, the same in both revisions; \<open>ev\<close> is \<open>event.error\<close>.\<close>

definition onerror :: "string \<Rightarrow> ('t, 'a) app_scheme \<Rightarrow> ('t, 'a) app_scheme" where
  "onerror ev s =
     s\<lparr>error := Some \<lparr>message = ''Recognition Error'',
                       details = Some (''Error: '' @ ev @ ''. Please try again.'')\<rparr>,
       status := Error,
       recognition := recognition s @ [RecStop]\<rparr>"

text \<open>\<open>recognition.onend\<close>, the same in both revisions; it reads \<open>status\<close> from its
  closure.\<close>

definition onend :: "('t, 'a) app_scheme \<Rightarrow> ('t, 'a) app_scheme \<Rightarrow> ('t, 'a) app_scheme" where
  "onend r s =
     (if status r = Recording then s\<lparr>recognition := recognition s @ [RecStart]\<rparr>
      else if status r \<noteq> Error then s\<lparr>status := Complete\<rparr>
      else s)"

subsection \<open>The handlers of \<open>src/App.tsx\<close>\<close>

text \<open>\<open>handleStartRecording\<close>; \<open>start_throws\<close> says whether \<open>recognition.start()\<close> raises,
  which sends control to the \<open>catch\<close> block.\<close>

definition handleStartRecording :: "bool \<Rightarrow> ('t, 'a) app_scheme \<Rightarrow> ('t, 'a) app_scheme" where
  "handleStartRecording start_throws s =
     (let s1 = s\<lparr>transcript := [], interimTranscript := [], error := None,
                 status := Recording, recognition := recognition s @ [RecStart]\<rparr>
      in if start_throws
         then s1\<lparr>error := Some \<lparr>message = ''Recognition Start Error'',
                     details = Some ''Failed to start speech recognition. Please try again.''\<rparr>,
                 status := Error\<rparr>
         else s1)"

text \<open>\<open>handleStopRecording\<close>; \<open>now_id\<close> and \<open>now_ts\<close> are its two readings of
  \<open>Date.now()\<close>.\<close>

definition handleStopRecording ::
  "(StoredTranscript, 'a) app_scheme \<Rightarrow> int \<Rightarrow> int \<Rightarrow>
   (StoredTranscript, 'a) app_scheme \<Rightarrow> (StoredTranscript, 'a) app_scheme" where
  "handleStopRecording r now_id now_ts s =
     (if recognitionRef s then
        (let s1 = s\<lparr>recognition := recognition s @ [RecStop], status := Complete\<rparr>
         in if trim (transcript r) \<noteq> [] then
              (let newTranscript = \<lparr>id_t = toString now_id, text_t = transcript r,
                                    language = selectedLanguage r, timestamp = now_ts\<rparr>;
                   updatedTranscripts = storedTranscripts r @ [newTranscript]
               in s1\<lparr>localStorage := Some updatedTranscripts,
                     storedTranscripts := updatedTranscripts\<rparr>)
            else s1)
      else s)"

text \<open>\<open>handleLanguageChange\<close>; \<open>v\<close> is \<open>e.target.value\<close>.\<close>

definition handleLanguageChange ::
  "(StoredTranscript, 'a) app_scheme \<Rightarrow> Language \<Rightarrow> int \<Rightarrow> int \<Rightarrow>
   (StoredTranscript, 'a) app_scheme \<Rightarrow> (StoredTranscript, 'a) app_scheme" where
  "handleLanguageChange r v now_id now_ts s =
     (let s1 = s\<lparr>selectedLanguage := v\<rparr>
      in if status r = Recording then handleStopRecording r now_id now_ts s1 else s1)"

text \<open>\<open>handleDismissError\<close>, the same in both revisions.\<close>

definition handleDismissError :: "('t, 'a) app_scheme \<Rightarrow> ('t, 'a) app_scheme" where
  "handleDismissError s = s\<lparr>error := None, status := Idle\<rparr>"

text \<open>\<open>handleDownload\<close>, the same in both revisions. \<open>isoString\<close> is the string that
  \<open>new Date().toISOString()\<close> returns; \<open>split('T')[0]\<close> is its part before the first
  \<open>T\<close>. The link is added to the page, clicked and removed again.\<close>

definition handleDownload :: "string \<Rightarrow> Language \<Rightarrow> string \<Rightarrow> Download" where
  "handleDownload text' lang isoString =
     (let langCode = (if lang = zh_CN then ''cn'' else ''en'')
      in \<lparr>download = ''transcript-'' @ langCode @ ''-''
                        @ takeWhile (\<lambda>c. c \<noteq> CHR ''T'') isoString @ ''.txt'',
          blob = text', blob_type = ''text/plain''\<rparr>)"

subsection \<open>The handlers that the later revision changes\<close>

definition handleStartRecording_p1 ::
  "bool \<Rightarrow> int \<Rightarrow> ('t, 'a) app_p1_scheme \<Rightarrow> ('t, 'a) app_p1_scheme" where
  "handleStartRecording_p1 start_throws now s =
     (let s1 = s\<lparr>transcript := [], interimTranscript := [], error := None,
                 transcriptRef := [], recordingStartTime := Some now,
                 status := Recording, recognition := recognition s @ [RecStart]\<rparr>
      in if start_throws
         then s1\<lparr>error := Some \<lparr>message = ''Recognition Start Error'',
                     details = Some ''Failed to start speech recognition. Please try again.''\<rparr>,
                 status := Error\<rparr>
         else s1)"

text \<open>The word counter \<open>x.trim().split(/\s+/).length\<close>.\<close>

definition word_count :: "string \<Rightarrow> nat" where
  "word_count x = length (split_s (trim x))"

definition handleStopRecording_p1 ::
  "(StoredTranscript_p1, 'a) app_p1_scheme \<Rightarrow> int \<Rightarrow> int \<Rightarrow>
   (StoredTranscript_p1, 'a) app_p1_scheme \<Rightarrow> (StoredTranscript_p1, 'a) app_p1_scheme" where
  "handleStopRecording_p1 r now_id now_ts s =
     (if recognitionRef s then
        (let s1 = s\<lparr>recognition := recognition s @ [RecStop], status := Complete,
                    recordingStartTime := None\<rparr>
         in if trim (transcript r) \<noteq> [] then
              (let wc = word_count (transcript r);
                   newTranscript = \<lparr>id_t = toString now_id, text_t = transcript r,
                                    language = selectedLanguage r, timestamp = now_ts,
                                    wordCount = wc\<rparr>;
                   updatedTranscripts = storedTranscripts r @ [newTranscript]
               in s1\<lparr>localStorage := Some updatedTranscripts,
                     storedTranscripts := updatedTranscripts\<rparr>)
            else s1)
      else s)"

text \<open>\<open>recognition.onresult\<close> of the later revision: \<open>final\<close> starts from
  \<open>transcriptRef.current\<close>, and the word ceiling is checked before anything is stored.\<close>

definition onresult_p1 ::
  "(StoredTranscript_p1, 'a) app_p1_scheme \<Rightarrow> int \<Rightarrow> int \<Rightarrow> SpeechRecognitionResult list \<Rightarrow>
   (StoredTranscript_p1, 'a) app_p1_scheme \<Rightarrow> (StoredTranscript_p1, 'a) app_p1_scheme" where
  "onresult_p1 r now_id now_ts results s =
     (case results_loop results ([], transcriptRef s) of
        (interim, final) \<Rightarrow>
          if word_count final > MAX_WORD_COUNT then
            (handleStopRecording_p1 r now_id now_ts s)
              \<lparr>error := Some \<lparr>message = ''Maximum Word Count Reached'',
                   details = Some (''Recording stopped after reaching ''
                                   @ toString (int MAX_WORD_COUNT) @ '' words.'')\<rparr>\<rparr>
          else s\<lparr>transcriptRef := final, transcript := final, interimTranscript := interim\<rparr>)"

subsection \<open>What the specification says a result-update leaves behind\<close>

text \<open>
  The specification's words for a result-update: the slots flagged final, each followed
  by one space, concatenated, make the new final text; the other slots, concatenated,
  make the interim text. These two definitions follow that wording, not the code.
\<close>

definition spec_finalText :: "SpeechRecognitionResult list \<Rightarrow> string" where
  "spec_finalText results = concat (map (\<lambda>x. transcript0 x @ '' '') (filter isFinal results))"

definition spec_interimText :: "SpeechRecognitionResult list \<Rightarrow> string" where
  "spec_interimText results = concat (map transcript0 (filter (\<lambda>x. \<not> isFinal x) results))"

subsection \<open>The format of the date in a file name\<close>

text \<open>
  \<open>Date.prototype.toISOString\<close> belongs to the platform. For the years 0 to 9999 it
  returns \<open>YYYY-MM-DDTHH:mm:ss.sssZ\<close>; \<open>iso_date\<close> recognises the part before the \<open>T\<close>.
\<close>

definition is_digit :: "char \<Rightarrow> bool" where
  "is_digit c = (48 \<le> (of_char c :: nat) \<and> (of_char c :: nat) \<le> 57)"

fun iso_date :: "string \<Rightarrow> bool" where
  "iso_date [y1, y2, y3, y4, h1, m1, m2, h2, d1, d2] =
     (is_digit y1 \<and> is_digit y2 \<and> is_digit y3 \<and> is_digit y4 \<and> h1 = CHR ''-'' \<and>
      is_digit m1 \<and> is_digit m2 \<and> h2 = CHR ''-'' \<and> is_digit d1 \<and> is_digit d2)"
| "iso_date _ = False"

subsection \<open>Concrete components and inputs\<close>

text \<open>
  The component after its first render and effects, over an empty storage: the
  \<open>useState\<close> defaults, and \<open>recognitionRef.current\<close> set by the effect.
\<close>

definition initial_App :: App where
  "initial_App = \<lparr>status = Idle, transcript = [], error = None, interimTranscript = [],
     selectedLanguage = en_US, storedTranscripts = [], recognitionRef = True,
     localStorage = None, recognition = []\<rparr>"

definition initial_App_p1 :: App_p1 where
  "initial_App_p1 = \<lparr>status = Idle, transcript = [], error = None, interimTranscript = [],
     selectedLanguage = en_US, storedTranscripts = [], recognitionRef = True,
     localStorage = None, recognition = [], recordingStartTime = None, transcriptRef = []\<rparr>"

text \<open>Two final slots, as the recogniser delivers them for the spoken words "hello" and
  "world".\<close>

definition hello :: SpeechRecognitionResult where
  "hello = \<lparr>isFinal = True, transcript0 = ''hello''\<rparr>"

definition world :: SpeechRecognitionResult where
  "world = \<lparr>isFinal = True, transcript0 = ''world''\<rparr>"

text \<open>A text of \<open>n\<close> words, and a result set of one final slot that holds \<open>k + 1\<close>
  words.\<close>

definition many_words :: "nat \<Rightarrow> string" where
  "many_words n = concat (replicate n ''a '')"


text \<open>
  The renders whose closures the recogniser's callbacks hold. The effect that installs
  the callbacks runs after a render in which \<open>status\<close> or \<open>selectedLanguage\<close> changed.
  \<open>began_p1\<close> is the render that begins a recording in the later revision: the callbacks
  keep its closure, with its empty \<open>transcript\<close>, for as long as the status stays
  recording. \<open>began\<close> and \<open>stopped\<close> are the renders of \<open>src/App.tsx\<close> after a start and
  after a start followed by a stop.
\<close>

definition began_p1 :: App_p1 where
  "began_p1 = handleStartRecording_p1 False 0 initial_App_p1"

definition began :: App where
  "began = handleStartRecording False initial_App"

definition stopped :: App where
  "stopped = handleStopRecording began 1 2 began"

text \<open>An archive read at time \<open>200000000\<close> (milliseconds): one entry a millisecond past
  the day, one entry 23 hours and 59 minutes old.\<close>

definition expired_entry :: StoredTranscript where
  "expired_entry = \<lparr>id_t = ''113599999'', text_t = ''old words '', language = en_US,
     timestamp = 200000000 - 24 * 60 * 60 * 1000 - 1\<rparr>"

definition fresh_entry :: StoredTranscript where
  "fresh_entry = \<lparr>id_t = ''113660000'', text_t = ''new words '', language = zh_CN,
     timestamp = 200000000 - (23 * 60 + 59) * 60 * 1000\<rparr>"

definition archive_App :: App where
  "archive_App = initial_App\<lparr>localStorage := Some [expired_entry, fresh_entry]\<rparr>"

section \<open>Properties\<close>

subsection \<open>Helper facts on strings\<close>

lemma filter_same_length: "length (filter P xs) = length xs \<Longrightarrow> filter P xs = xs"
proof (induction xs)
  case Nil
  then show ?case by simp
next
  case (Cons x xs)
  have le: "length (filter P xs) \<le> length xs" by (rule length_filter_le)
  from Cons.prems le have px: "P x" by (cases "P x") auto
  with Cons show ?case by simp
qed

lemma is_ws_simps: "is_ws CHR '' ''" "\<not> is_ws CHR ''a''"
  by (simp_all add: is_ws_def)

lemma many_words_0: "many_words 0 = []"
  by (simp add: many_words_def)

lemma many_words_Suc: "many_words (Suc n) = CHR ''a'' # CHR '' '' # many_words n"
  by (simp add: many_words_def)

lemma many_words_snoc: "many_words (Suc n) = many_words n @ ''a ''"
  by (induction n) (simp_all add: many_words_Suc many_words_0)



lemma trim_many_words: "trim (many_words (Suc n)) = many_words n @ ''a''"
proof -
  have "dropWhile is_ws (many_words (Suc n)) = many_words (Suc n)"
    by (simp add: many_words_Suc is_ws_simps)
  then show ?thesis
    by (simp add: trim_def many_words_snoc is_ws_simps)
qed


lemma trim_many_nonempty: "0 < n \<Longrightarrow> trim (many_words n) \<noteq> []"
  by (cases n) (simp_all add: trim_many_words)


lemma word_count_small:
  "word_count ''hello '' = 1" "word_count ''hello hello '' = 2"
  "word_count ''hello world '' = 2" "word_count ''hello hello world '' = 3"
  by code_simp+

lemma trim_small: "trim ''hello world '' \<noteq> []" "trim ''test '' \<noteq> []"
  by code_simp+

lemma iso_date_no_T: "iso_date d \<Longrightarrow> CHR ''T'' \<notin> set d"
  by (erule iso_date.elims) (auto simp: is_digit_def)

lemma takeWhile_until: "c \<notin> set d \<Longrightarrow> takeWhile (\<lambda>x. x \<noteq> c) (d @ c # rest) = d"
  by (induction d) auto

subsection \<open>Helper facts on the handlers\<close>

text \<open>The loop adds to its two strings exactly what the specification describes.\<close>

lemma results_loop_eq:
  "results_loop results (interim, final)
   = (interim @ spec_interimText results, final @ spec_finalText results)"
  by (induction results arbitrary: interim final)
     (simp_all add: spec_finalText_def spec_interimText_def)

lemma spec_finalText_small:
  "spec_finalText [hello] = ''hello ''" "spec_finalText [hello, world] = ''hello world ''"
  by (simp_all add: spec_finalText_def hello_def world_def)

text \<open>In \<open>src/App.tsx\<close> a result-update replaces both texts, whatever they were; so the
  last of any sequence of deliveries decides the final text, and a repeated delivery
  changes nothing.\<close>

lemma onresult_replaces:
  "transcript (onresult results s) = spec_finalText results
   \<and> interimTranscript (onresult results s) = spec_interimText results"
  by (simp add: onresult_def results_loop_eq)

lemma onresult_sequence:
  "transcript (foldl (\<lambda>s results. onresult results s) s0 (deliveries @ [latest]))
   = spec_finalText latest"
  by (simp add: onresult_replaces)

lemma onresult_idempotent: "onresult results (onresult results s) = onresult results s"
  by (simp add: onresult_def results_loop_eq)

text \<open>The two branches of the later revision's \<open>onresult\<close>.\<close>

lemma onresult_p1_below:
  assumes "word_count (transcriptRef s @ spec_finalText results) \<le> MAX_WORD_COUNT"
  shows "onresult_p1 r a b results s
         = s\<lparr>transcriptRef := transcriptRef s @ spec_finalText results,
             transcript := transcriptRef s @ spec_finalText results,
             interimTranscript := spec_interimText results\<rparr>"
  using assms by (simp add: onresult_p1_def results_loop_eq)

lemma onresult_p1_above:
  assumes "MAX_WORD_COUNT < word_count (transcriptRef s @ spec_finalText results)"
  shows "onresult_p1 r a b results s
         = (handleStopRecording_p1 r a b s)
             \<lparr>error := Some \<lparr>message = ''Maximum Word Count Reached'',
                  details = Some ''Recording stopped after reaching 88888 words.''\<rparr>\<rparr>"
proof -
  have "toString (int MAX_WORD_COUNT) = ''88888''"
    by (simp add: MAX_WORD_COUNT_def toString_def toString_nat.simps digit_char_def)
  with assms show ?thesis
    by (simp add: onresult_p1_def results_loop_eq)
qed

lemma started_p1: "transcriptRef (handleStartRecording_p1 False t0 s) = []"
  by (simp add: handleStartRecording_p1_def)

lemma handleStop_fields:
  assumes "recognitionRef s"
  shows "status (handleStopRecording r a b s) = Complete"
    and "recognition (handleStopRecording r a b s) = recognition s @ [RecStop]"
    and "transcript (handleStopRecording r a b s) = transcript s"
    and "selectedLanguage (handleStopRecording r a b s) = selectedLanguage s"
    and "storedTranscripts (handleStopRecording r a b s)
         = (if trim (transcript r) = [] then storedTranscripts s
            else storedTranscripts r @ [\<lparr>id_t = toString a, text_t = transcript r,
                   language = selectedLanguage r, timestamp = b\<rparr>])"
    and "localStorage (handleStopRecording r a b s)
         = (if trim (transcript r) = [] then localStorage s
            else Some (storedTranscripts r @ [\<lparr>id_t = toString a, text_t = transcript r,
                   language = selectedLanguage r, timestamp = b\<rparr>]))"
  using assms by (simp_all add: handleStopRecording_def Let_def)

lemma handleStop_p1_fields:
  assumes "recognitionRef s"
  shows "status (handleStopRecording_p1 r a b s) = Complete"
    and "recognition (handleStopRecording_p1 r a b s) = recognition s @ [RecStop]"
    and "recordingStartTime (handleStopRecording_p1 r a b s) = None"
    and "transcript (handleStopRecording_p1 r a b s) = transcript s"
    and "interimTranscript (handleStopRecording_p1 r a b s) = interimTranscript s"
    and "transcriptRef (handleStopRecording_p1 r a b s) = transcriptRef s"
    and "selectedLanguage (handleStopRecording_p1 r a b s) = selectedLanguage s"
    and "error (handleStopRecording_p1 r a b s) = error s"
    and "storedTranscripts (handleStopRecording_p1 r a b s)
         = (if trim (transcript r) = [] then storedTranscripts s
            else storedTranscripts r @ [\<lparr>id_t = toString a, text_t = transcript r,
                   language = selectedLanguage r, timestamp = b,
                   wordCount = word_count (transcript r)\<rparr>])"
    and "localStorage (handleStopRecording_p1 r a b s)
         = (if trim (transcript r) = [] then localStorage s
            else Some (storedTranscripts r @ [\<lparr>id_t = toString a, text_t = transcript r,
                   language = selectedLanguage r, timestamp = b,
                   wordCount = word_count (transcript r)\<rparr>]))"
  using assms by (simp_all add: handleStopRecording_p1_def Let_def)

lemma began_p1_fields:
  "recognitionRef began_p1" "transcriptRef began_p1 = []" "transcript began_p1 = []"
  "interimTranscript began_p1 = []" "status began_p1 = Recording"
  "storedTranscripts began_p1 = []" "localStorage began_p1 = None"
  "recognition began_p1 = [RecStart]"
  by (simp_all add: began_p1_def handleStartRecording_p1_def initial_App_p1_def)

lemma began_fields:
  "recognitionRef began" "status began = Recording" "transcript began = []"
  "recognition began = [RecStart]" "storedTranscripts began = []"
  by (simp_all add: began_def handleStartRecording_def initial_App_def)

lemma stopped_fields:
  "status stopped = Complete" "recognition stopped = [RecStart, RecStop]"
  "storedTranscripts stopped = []"
  by (simp_all add: stopped_def handleStop_fields [OF began_fields(1)] began_fields trim_def)

lemma loadAndClean_Some:
  assumes "localStorage s = Some ts"
  shows "localStorage (loadAndCleanTranscripts now s)
         = Some (filter (\<lambda>t. now - timestamp t < ONE_DAY_MS) ts)"
    and "storedTranscripts (loadAndCleanTranscripts now s)
         = filter (\<lambda>t. now - timestamp t < ONE_DAY_MS) ts"
  using assms by (auto simp: loadAndCleanTranscripts_def Let_def filter_same_length)



subsection \<open>Result-updates\<close>

text \<open>
  C1. After each result-update the final text should be exactly the final slots of the
  latest result set, each followed by a space, with nothing carried over from earlier
  callbacks. \<open>src/App.tsx\<close> does this (\<open>onresult_replaces\<close>, \<open>onresult_sequence\<close>). The
  later revision does not: its \<open>final\<close> starts from \<open>transcriptRef.current\<close>, which already
  holds the final slots of the earlier callbacks, and the loop then appends the whole
  replayed history again. After a start, the result sets "hello" and then "hello",
  "world" (the recogniser replays the first slot) leave the final text
  "hello hello world " instead of "hello world ".
\<close>

theorem onresult_p1_accumulates:
  "(let s1 = handleStartRecording_p1 False 0 initial_App_p1;
        s2 = onresult_p1 s1 0 0 [hello] s1;
        s3 = onresult_p1 s2 0 0 [hello, world] s2
    in transcript s2 = ''hello ''
     \<and> transcript s3 = ''hello hello world ''
     \<and> spec_finalText [hello, world] = ''hello world ''
     \<and> transcript s3 \<noteq> spec_finalText [hello, world])"
proof -
  let ?s1 = "handleStartRecording_p1 False 0 initial_App_p1"
  let ?s2 = "onresult_p1 ?s1 0 0 [hello] ?s1"
  have "word_count (transcriptRef ?s1 @ spec_finalText [hello]) \<le> MAX_WORD_COUNT"
    by (simp add: started_p1 spec_finalText_small word_count_small MAX_WORD_COUNT_def)
  note first = onresult_p1_below [OF this, of ?s1 0 0]
  have ref2: "transcriptRef ?s2 = ''hello ''" and text2: "transcript ?s2 = ''hello ''"
    by (simp_all add: first started_p1 spec_finalText_small)
  have "word_count (transcriptRef ?s2 @ spec_finalText [hello, world]) \<le> MAX_WORD_COUNT"
    by (simp add: ref2 spec_finalText_small word_count_small MAX_WORD_COUNT_def)
  note second = onresult_p1_below [OF this, of ?s2 0 0]
  have text3: "transcript (onresult_p1 ?s2 0 0 [hello, world] ?s2) = ''hello hello world ''"
    by (simp add: second ref2 spec_finalText_small)
  show ?thesis
    unfolding Let_def by (simp add: text2 text3 spec_finalText_small)
qed

text \<open>
  C3. Delivering the same result-update twice in a row should leave the final and the
  interim text as one delivery leaves them. \<open>src/App.tsx\<close> does this
  (\<open>onresult_idempotent\<close>). The later revision does not, by the same accumulation as in
  C1: after a start, the result set "hello" delivered twice leaves "hello hello ".
\<close>

theorem onresult_p1_not_idempotent:
  "(let s1 = handleStartRecording_p1 False 0 initial_App_p1;
        once = onresult_p1 s1 0 0 [hello] s1;
        twice = onresult_p1 once 0 0 [hello] once
    in transcript once = ''hello ''
     \<and> transcript twice = ''hello hello ''
     \<and> transcript twice \<noteq> transcript once)"
proof -
  let ?s1 = "handleStartRecording_p1 False 0 initial_App_p1"
  let ?s2 = "onresult_p1 ?s1 0 0 [hello] ?s1"
  have "word_count (transcriptRef ?s1 @ spec_finalText [hello]) \<le> MAX_WORD_COUNT"
    by (simp add: started_p1 spec_finalText_small word_count_small MAX_WORD_COUNT_def)
  note first = onresult_p1_below [OF this, of ?s1 0 0]
  have ref2: "transcriptRef ?s2 = ''hello ''" and text2: "transcript ?s2 = ''hello ''"
    by (simp_all add: first started_p1 spec_finalText_small)
  have "word_count (transcriptRef ?s2 @ spec_finalText [hello]) \<le> MAX_WORD_COUNT"
    by (simp add: ref2 spec_finalText_small word_count_small MAX_WORD_COUNT_def)
  note second = onresult_p1_below [OF this, of ?s2 0 0]
  have text3: "transcript (onresult_p1 ?s2 0 0 [hello] ?s2) = ''hello hello ''"
    by (simp add: second ref2 spec_finalText_small)
  show ?thesis
    unfolding Let_def by (simp add: text2 text3)
qed

subsection \<open>The word ceiling\<close>




text \<open>
  What the forced stop archives is a matter of the closure. \<open>handleStopRecording\<close> stores
  the \<open>transcript\<close> of its closure when that is not blank; the closure that the callback
  holds during a recording is the render that began it, whose \<open>transcript\<close> is empty. So
  the stop that the ceiling forces archives nothing, whatever the component has
  collected.
\<close>

lemma forced_stop_archives_nothing:
  assumes "recognitionRef s" and "trim (transcript r) = []"
    and "88888 < word_count (snd (results_loop results ([], transcriptRef s)))"
  shows "storedTranscripts (onresult_p1 r a b results s) = storedTranscripts s"
    and "localStorage (onresult_p1 r a b results s) = localStorage s"
proof -
  from assms(3) have "MAX_WORD_COUNT < word_count (transcriptRef s @ spec_finalText results)"
    by (simp add: results_loop_eq MAX_WORD_COUNT_def)
  note eq = onresult_p1_above [OF this, of r a b]
  show "storedTranscripts (onresult_p1 r a b results s) = storedTranscripts s"
    and "localStorage (onresult_p1 r a b results s) = localStorage s"
    by (simp_all add: eq handleStop_p1_fields [OF assms(1)] assms(2))
qed

lemma began_p1_closure_blank: "trim (transcript began_p1) = []"
  by (simp add: began_p1_fields trim_def)

subsection \<open>The archive\<close>

text \<open>
  C4. Whatever collection is stored and whatever the time \<open>now\<close>, \<open>loadAndPrune\<close>
  (\<open>loadAndCleanTranscripts\<close>) returns and leaves stored exactly the entries that are
  not expired, an entry being expired when \<open>now - createdAt\<close> is at least 24 hours
  (86400000 ms). So an entry created at \<open>now - 24h - 1ms\<close> is absent afterwards, and a
  stored entry created at \<open>now - 23h59m\<close> is present.
\<close>

theorem loadAndClean_expiry:
  assumes "localStorage s = Some ts"
  shows "localStorage (loadAndCleanTranscripts now s)
           = Some (filter (\<lambda>t. \<not> 86400000 \<le> now - timestamp t) ts)
       \<and> storedTranscripts (loadAndCleanTranscripts now s)
           = filter (\<lambda>t. \<not> 86400000 \<le> now - timestamp t) ts
       \<and> (\<forall>t. timestamp t = now - 24 * 60 * 60 * 1000 - 1
              \<longrightarrow> t \<notin> set (storedTranscripts (loadAndCleanTranscripts now s)))
       \<and> (\<forall>t \<in> set ts. timestamp t = now - (23 * 60 + 59) * 60 * 1000
              \<longrightarrow> t \<in> set (storedTranscripts (loadAndCleanTranscripts now s)))"
proof -
  have eq: "(\<lambda>t::'a StoredTranscript_scheme. now - timestamp t < ONE_DAY_MS)
              = (\<lambda>t. \<not> 86400000 \<le> now - timestamp t)"
    by (auto simp: ONE_DAY_MS_def)
  show ?thesis
    using loadAndClean_Some [OF assms, of now] unfolding eq by auto
qed

theorem loadAndClean_expiry_witness:
  "localStorage archive_App = Some [expired_entry, fresh_entry]
   \<and> timestamp expired_entry = 200000000 - 24 * 60 * 60 * 1000 - 1
   \<and> timestamp fresh_entry = 200000000 - (23 * 60 + 59) * 60 * 1000
   \<and> expired_entry \<notin> set (storedTranscripts (loadAndCleanTranscripts 200000000 archive_App))
   \<and> fresh_entry \<in> set (storedTranscripts (loadAndCleanTranscripts 200000000 archive_App))
   \<and> localStorage (loadAndCleanTranscripts 200000000 archive_App) = Some [fresh_entry]"
proof -
  have stored: "localStorage archive_App = Some [expired_entry, fresh_entry]"
    by (simp add: archive_App_def)
  have times: "timestamp expired_entry = 200000000 - 24 * 60 * 60 * 1000 - 1"
    "timestamp fresh_entry = 200000000 - (23 * 60 + 59) * 60 * 1000"
    by (simp_all add: expired_entry_def fresh_entry_def)
  have differ: "expired_entry \<noteq> fresh_entry"
    by (simp add: expired_entry_def fresh_entry_def)
  from loadAndClean_expiry [OF stored, of 200000000] stored times differ show ?thesis
    by simp
qed

subsection \<open>Errors and the end of recognition\<close>

text \<open>
  C5. A recognition error never writes to the archive: whatever the component holds
  (also a final text that is not blank), \<open>onerror\<close> leaves the stored collection and the
  in-memory list as they were, sets the status to error, records the error and asks the
  recogniser to stop; and the end callback that this stop brings, installed under status
  error, changes nothing.
\<close>

theorem onerror_never_persists:
  "localStorage (onerror ev s) = localStorage s
   \<and> storedTranscripts (onerror ev s) = storedTranscripts s
   \<and> status (onerror ev s) = Error
   \<and> error (onerror ev s)
       = Some \<lparr>message = ''Recognition Error'',
               details = Some (''Error: '' @ ev @ ''. Please try again.'')\<rparr>
   \<and> recognition (onerror ev s) = recognition s @ [RecStop]
   \<and> onend (onerror ev s) (onerror ev s) = onerror ev s"
  by (simp add: onerror_def onend_def)

text \<open>
  The end callback whose closure holds the current status, as it does once the effect
  has run again after a change of \<open>status\<close>: under status recording it starts the
  recogniser again and the status stays recording; under complete the status stays
  complete; under error it stays error; under any other status it becomes complete.
  Texts and archive are not touched.
\<close>

lemma onend_policy:
  assumes "status r = status s"
  shows "status (onend r s)
           = (if status s = Recording then Recording
              else if status s = Error then Error else Complete)
       \<and> recognition (onend r s)
           = (if status s = Recording then recognition s @ [RecStart] else recognition s)
       \<and> transcript (onend r s) = transcript s
       \<and> storedTranscripts (onend r s) = storedTranscripts s
       \<and> localStorage (onend r s) = localStorage s"
  using assms by (simp add: onend_def)

text \<open>
  C8. An end callback should obey the end policy on the status the session has when it
  arrives, and a late one should never bring a finished session back or overwrite
  complete or error. \<open>onend\<close> tests the \<open>status\<close> of its closure instead, which is the
  status of the render that installed it. A callback that arrives before the effect has
  run again therefore decides on an old status:
  \<^item> after a start and a stop the callbacks hold status complete; an error sets the
    status to error, and the end callback that follows sets it to complete, over the
    error;
  \<^item> during a recording the callbacks hold status recording; an error sets the status
    to error and stops the recogniser, and the end callback that follows starts the
    recogniser again, though the session has ended in error.
\<close>

theorem onend_late_callback:
  "(let errored = onerror ''network'' stopped;
        late = onend stopped errored
    in status stopped = Complete
     \<and> status errored = Error
     \<and> status late = Complete
     \<and> status late \<noteq> status errored)
   \<and> (let errored = onerror ''network'' began;
            late = onend began errored
        in status began = Recording
         \<and> status errored = Error
         \<and> recognition errored = [RecStart, RecStop]
         \<and> status late = Error
         \<and> recognition late = [RecStart, RecStop, RecStart])"
  unfolding Let_def
  by (simp add: onend_def onerror_def stopped_fields began_fields)

subsection \<open>Stopping\<close>

text \<open>
  C6. Manual stop persists (later revision, which has the word count). From any
  component whose recogniser ref is set: start a recording, deliver one final slot
  "hello world", which makes the final text "hello world ", and stop from the current
  render. The archive, stored and in memory, is then the list the component held before
  with exactly one record appended, whose text is "hello world " and whose word count
  is 2; the status is complete. And a stop whose closure holds a blank final text writes
  no record.
\<close>

theorem manual_stop_persists:
  assumes "recognitionRef s0"
  shows "(let s1 = handleStartRecording_p1 False t0 s0;
              s2 = onresult_p1 r a b [\<lparr>isFinal = True, transcript0 = ''hello world''\<rparr>] s1;
              s3 = handleStopRecording_p1 s2 now_id now_ts s2
          in transcript s2 = ''hello world ''
           \<and> storedTranscripts s3
               = storedTranscripts s0 @ [\<lparr>id_t = toString now_id, text_t = ''hello world '',
                    language = selectedLanguage s0, timestamp = now_ts, wordCount = 2\<rparr>]
           \<and> localStorage s3 = Some (storedTranscripts s3)
           \<and> status s3 = Complete)
       \<and> (trim (transcript r') = [] \<longrightarrow>
            storedTranscripts (handleStopRecording_p1 r' i t s') = storedTranscripts s'
          \<and> localStorage (handleStopRecording_p1 r' i t s') = localStorage s')"
proof -
  let ?hw = "[\<lparr>isFinal = True, transcript0 = ''hello world''\<rparr>]"
  let ?s1 = "handleStartRecording_p1 False t0 s0"
  let ?s2 = "onresult_p1 r a b ?hw ?s1"
  have ft: "spec_finalText ?hw = ''hello world ''"
    by (simp add: spec_finalText_def)
  have "word_count (transcriptRef ?s1 @ spec_finalText ?hw) \<le> MAX_WORD_COUNT"
    by (simp add: started_p1 ft word_count_small MAX_WORD_COUNT_def)
  note s2 = onresult_p1_below [OF this, of r a b]
  have s1: "recognitionRef ?s1" "storedTranscripts ?s1 = storedTranscripts s0"
    "selectedLanguage ?s1 = selectedLanguage s0"
    using assms by (simp_all add: handleStartRecording_p1_def)
  have f2: "transcript ?s2 = ''hello world ''" "recognitionRef ?s2"
    "storedTranscripts ?s2 = storedTranscripts s0" "selectedLanguage ?s2 = selectedLanguage s0"
    by (simp_all add: s2 started_p1 ft s1)
  have scenario: "transcript ?s2 = ''hello world ''
     \<and> storedTranscripts (handleStopRecording_p1 ?s2 now_id now_ts ?s2)
         = storedTranscripts s0 @ [\<lparr>id_t = toString now_id, text_t = ''hello world '',
              language = selectedLanguage s0, timestamp = now_ts, wordCount = 2\<rparr>]
     \<and> localStorage (handleStopRecording_p1 ?s2 now_id now_ts ?s2)
         = Some (storedTranscripts (handleStopRecording_p1 ?s2 now_id now_ts ?s2))
     \<and> status (handleStopRecording_p1 ?s2 now_id now_ts ?s2) = Complete"
    by (simp add: handleStop_p1_fields [OF f2(2)] f2 trim_small word_count_small)
  have blank: "trim (transcript r') = [] \<longrightarrow>
        storedTranscripts (handleStopRecording_p1 r' i t s') = storedTranscripts s'
      \<and> localStorage (handleStopRecording_p1 r' i t s') = localStorage s'"
    by (simp add: handleStopRecording_p1_def)
  from scenario blank show ?thesis
    unfolding Let_def by (rule conjI)
qed

theorem manual_stop_persists_witness:
  "recognitionRef initial_App_p1
   \<and> (let s1 = handleStartRecording_p1 False 1000 initial_App_p1;
           s2 = onresult_p1 s1 0 0 [\<lparr>isFinal = True, transcript0 = ''hello world''\<rparr>] s1;
           s3 = handleStopRecording_p1 s2 2000 2001 s2
       in map text_t (storedTranscripts s3) = [''hello world '']
        \<and> map wordCount (storedTranscripts s3) = [2]
        \<and> localStorage s3 = Some (storedTranscripts s3)
        \<and> status s3 = Complete)
   \<and> trim (transcript initial_App_p1) = []
   \<and> storedTranscripts (handleStopRecording_p1 initial_App_p1 2000 2001 initial_App_p1) = []
   \<and> localStorage (handleStopRecording_p1 initial_App_p1 2000 2001 initial_App_p1) = None"
proof -
  have ref: "recognitionRef initial_App_p1" and blank: "trim (transcript initial_App_p1) = []"
    and none: "storedTranscripts initial_App_p1 = []" "localStorage initial_App_p1 = None"
    by (simp_all add: initial_App_p1_def trim_def)
  note inst = manual_stop_persists [OF ref, of 1000 "handleStartRecording_p1 False 1000 initial_App_p1"
      0 0 2000 2001 initial_App_p1 2000 2001 initial_App_p1]
  from inst [THEN conjunct1] inst [THEN conjunct2, rule_format, OF blank] ref blank none
  show ?thesis
    by (simp add: Let_def)
qed

text \<open>
  C7. A language change while recording flushes the session (\<open>src/App.tsx\<close>). From any
  component whose recogniser ref is set and whose language is en-US: start a recording,
  deliver the final slot "test", and change the language to zh-CN from the current
  render. The archive, stored and in memory, is then the list the component held before
  with exactly one record appended, whose language is en-US and whose text is "test ";
  the selected language is zh-CN and the status is complete.
\<close>

theorem language_change_flushes:
  assumes "recognitionRef s0" and "selectedLanguage s0 = en_US"
  shows "(let s1 = handleStartRecording False s0;
              s2 = onresult [\<lparr>isFinal = True, transcript0 = ''test''\<rparr>] s1;
              s3 = handleLanguageChange s2 zh_CN now_id now_ts s2
          in storedTranscripts s3
               = storedTranscripts s0 @ [\<lparr>id_t = toString now_id, text_t = ''test '',
                    language = en_US, timestamp = now_ts\<rparr>]
           \<and> localStorage s3 = Some (storedTranscripts s3)
           \<and> selectedLanguage s3 = zh_CN
           \<and> status s3 = Complete)"
proof -
  let ?s1 = "handleStartRecording False s0"
  let ?s2 = "onresult [\<lparr>isFinal = True, transcript0 = ''test''\<rparr>] ?s1"
  have f2: "transcript ?s2 = ''test ''" "recognitionRef (?s2\<lparr>selectedLanguage := zh_CN\<rparr>)"
    "storedTranscripts ?s2 = storedTranscripts s0" "selectedLanguage ?s2 = en_US"
    "status ?s2 = Recording"
    using assms by (simp_all add: onresult_def handleStartRecording_def)
  show ?thesis
    unfolding Let_def handleLanguageChange_def
    by (simp add: f2(1,3,4,5) handleStop_fields [OF f2(2)] trim_small)
qed

theorem language_change_flushes_witness:
  "recognitionRef initial_App \<and> selectedLanguage initial_App = en_US
   \<and> (let s1 = handleStartRecording False initial_App;
           s2 = onresult [\<lparr>isFinal = True, transcript0 = ''test''\<rparr>] s1;
           s3 = handleLanguageChange s2 zh_CN 2000 2001 s2
       in map language (storedTranscripts s3) = [en_US]
        \<and> map text_t (storedTranscripts s3) = [''test '']
        \<and> localStorage s3 = Some (storedTranscripts s3)
        \<and> selectedLanguage s3 = zh_CN
        \<and> status s3 = Complete)"
proof -
  have ref: "recognitionRef initial_App" and lang: "selectedLanguage initial_App = en_US"
    and none: "storedTranscripts initial_App = []"
    by (simp_all add: initial_App_def)
  from language_change_flushes [OF ref lang, of 2000 2001] ref lang none
  show ?thesis
    by (simp add: Let_def)
qed

subsection \<open>Export and dismissal\<close>

text \<open>
  C9, as the code has it. For every text, either language and every ISO timestamp
  whose date part is \<open>YYYY-MM-DD\<close>, \<open>handleDownload\<close> produces a plain-text file named
  \<open>transcript-<code>-<YYYY-MM-DD>.txt\<close>, where the code is \<open>en\<close> for en-US and \<open>cn\<close> for
  zh-CN, and whose content is the text itself, nothing added.
\<close>

theorem handleDownload_file:
  assumes "iso_date d"
  shows "handleDownload text' lang (d @ CHR ''T'' # rest)
         = \<lparr>download = ''transcript-'' @ (case lang of en_US \<Rightarrow> ''en'' | zh_CN \<Rightarrow> ''cn'')
                            @ ''-'' @ d @ ''.txt'',
            blob = text', blob_type = ''text/plain''\<rparr>"
  using iso_date_no_T [OF assms]
  by (cases lang) (simp_all add: handleDownload_def takeWhile_until)

theorem handleDownload_file_witness:
  "iso_date ''2024-01-15''
   \<and> handleDownload ''hello world '' en_US ''2024-01-15T10:30:00.000Z''
       = \<lparr>download = ''transcript-en-2024-01-15.txt'', blob = ''hello world '',
          blob_type = ''text/plain''\<rparr>
   \<and> handleDownload ''hello world '' zh_CN ''2024-01-15T10:30:00.000Z''
       = \<lparr>download = ''transcript-cn-2024-01-15.txt'', blob = ''hello world '',
          blob_type = ''text/plain''\<rparr>"
  using handleDownload_file [of "''2024-01-15''" "''hello world ''" en_US "''10:30:00.000Z''"]
        handleDownload_file [of "''2024-01-15''" "''hello world ''" zh_CN "''10:30:00.000Z''"]
  by (simp add: is_digit_def)

text \<open>Against C9 as the specification words it: for zh-CN the language segment of the
  name is not \<open>zh\<close>.\<close>

theorem handleDownload_zh_counterexample:
  "download (handleDownload ''hello world '' zh_CN ''2024-01-15T10:30:00.000Z'')
     \<noteq> ''transcript-zh-2024-01-15.txt''"
  by (simp add: handleDownload_def)

text \<open>
  C10. Dismissing the error banner resets the session from any status, not only from
  error: \<open>handleDismissError\<close> sets the status to idle and clears the error, and leaves the
  final text and the archive, in memory and stored, as they were.
\<close>

theorem handleDismissError_resets:
  "status (handleDismissError s) = Idle
   \<and> error (handleDismissError s) = None
   \<and> transcript (handleDismissError s) = transcript s
   \<and> storedTranscripts (handleDismissError s) = storedTranscripts s
   \<and> localStorage (handleDismissError s) = localStorage s"
  by (simp add: handleDismissError_def)

end
